theory Spec2Isabelle
  imports Complex_Main "HOL-Library.Sublist"
begin

section \<open>Data model\<close>

text \<open>
  The bot keeps its data in two SQLite tables, \<open>users\<close> and \<open>messages\<close>. A table is
  a list of rows in insertion (rowid) order. Timestamps are the naive local
  \<open>datetime.now()\<close> values the bot stores; a naive datetime is a point on the proleptic
  calendar without a time zone, modelled as the number of microseconds since midnight
  of day 0. Python floats (the polarity and the averages) are modelled as reals, Python
  ints as \<open>int\<close>, Python \<open>str\<close> as \<open>string\<close> (ASCII text).
\<close>

type_synonym datetime = int

definition us_per_hour :: int where
  "us_per_hour = 3600000000"

definition us_per_day :: int where
  "us_per_day = 86400000000"

definition mk_datetime :: "int \<Rightarrow> int \<Rightarrow> int \<Rightarrow> int \<Rightarrow> datetime" where
  \<comment> \<open>day number, hour, minute, second\<close>
  "mk_datetime d h m s = (((d * 24 + h) * 60 + m) * 60 + s) * 1000000"

definition strftime_H :: "datetime \<Rightarrow> int" where
  \<comment> \<open>\<open>CAST(strftime('%H', timestamp) AS INTEGER)\<close>: the hour of the day, 0 to 23\<close>
  "strftime_H ts = (ts mod us_per_day) div us_per_hour"

definition DATE :: "datetime \<Rightarrow> int" where
  \<comment> \<open>\<open>DATE(timestamp)\<close>: the calendar day, as a day number\<close>
  "DATE ts = ts div us_per_day"

definition timedelta_days :: "datetime \<Rightarrow> datetime \<Rightarrow> int" where
  \<comment> \<open>\<open>(a - b).days\<close>: a timedelta is normalised with \<open>0 \<le> seconds < 86400\<close>, so
      \<open>days\<close> is the floor of the difference in days (negative when \<open>a < b\<close>)\<close>
  "timedelta_days a b = (a - b) div us_per_day"

record user_row =
  u_user_id :: int
  username :: string
  first_name :: string
  registration_date :: datetime
  total_messages :: int

record message =
  user_id :: int
  message_text :: string
  timestamp :: datetime
  sentiment_score :: real
  word_count :: int

record database =
  users :: "user_row list"
  messages :: "message list"

datatype error = ZeroDivisionError | TypeError | ValueError

datatype 'a reply = Insufficient_Data | Report 'a

section \<open>Lexicon\<close>

definition personality_indicators :: "(string \<times> string list) list" where
  "personality_indicators =
    [(''extraversion'',
        [''party'', ''friends'', ''social'', ''outgoing'', ''energy'', ''talk'', ''people'']),
     (''openness'',
        [''creative'', ''art'', ''new'', ''explore'', ''imagination'', ''curious'', ''different'']),
     (''conscientiousness'',
        [''organized'', ''plan'', ''schedule'', ''work'', ''goal'', ''discipline'', ''complete'']),
     (''agreeableness'',
        [''help'', ''kind'', ''support'', ''care'', ''team'', ''cooperation'', ''please'']),
     (''neuroticism'',
        [''stress'', ''worry'', ''anxious'', ''nervous'', ''fear'', ''sad'', ''upset''])]"

definition stress_keywords :: "string list" where
  "stress_keywords =
    [''deadline'', ''pressure'', ''overwhelmed'', ''can't'', ''too much'', ''tired'',
     ''exhausted'']"

section \<open>Python string operations\<close>

definition lower_char :: "char \<Rightarrow> char" where
  "lower_char c =
    (case map_of (zip ''ABCDEFGHIJKLMNOPQRSTUVWXYZ'' ''abcdefghijklmnopqrstuvwxyz'') c of
       Some d \<Rightarrow> d
     | None \<Rightarrow> c)"

definition lower :: "string \<Rightarrow> string" where
  \<comment> \<open>\<open>text.lower()\<close>\<close>
  "lower text = map lower_char text"

fun contains :: "string \<Rightarrow> string \<Rightarrow> bool" where
  \<comment> \<open>\<open>contains text sub\<close> is Python's \<open>sub in text\<close>\<close>
  "contains [] sub = (sub = [])"
| "contains (c # cs) sub = (prefix sub (c # cs) \<or> contains cs sub)"

function count_sub :: "string \<Rightarrow> string \<Rightarrow> nat" where
  \<comment> \<open>\<open>count_sub text sub\<close> is Python's \<open>text.count(sub)\<close>: the occurrences are counted
      from the left and do not overlap; the empty string occurs \<open>len(text) + 1\<close> times\<close>
  "count_sub text sub =
     (if sub = [] then length text + 1
      else if text = [] then 0
      else if prefix sub text then 1 + count_sub (drop (length sub) text) sub
      else count_sub (tl text) sub)"
  by pat_completeness auto
termination
  by (relation "measure (\<lambda>(text, sub). length text)") auto

declare count_sub.simps [simp del]

fun join :: "string \<Rightarrow> string list \<Rightarrow> string" where
  \<comment> \<open>\<open>join sep xs\<close> is Python's \<open>sep.join(xs)\<close>\<close>
  "join sep [] = []"
| "join sep [x] = x"
| "join sep (x # y # ys) = x @ sep @ join sep (y # ys)"

section \<open>SQL queries on the messages table\<close>

definition user_messages :: "database \<Rightarrow> int \<Rightarrow> message list" where
  \<comment> \<open>\<open>FROM messages WHERE user_id = ?\<close>\<close>
  "user_messages db uid = filter (\<lambda>m. user_id m = uid) (messages db)"

definition recent_messages :: "nat \<Rightarrow> database \<Rightarrow> int \<Rightarrow> message list" where
  \<comment> \<open>\<open>FROM messages WHERE user_id = ? ORDER BY timestamp DESC LIMIT n\<close>; rows with
      equal timestamps keep their insertion order\<close>
  "recent_messages n db uid = take n (sort_key (\<lambda>m. - timestamp m) (user_messages db uid))"

definition sql_avg :: "real list \<Rightarrow> real option" where
  \<comment> \<open>\<open>AVG(col)\<close>: NULL on no rows\<close>
  "sql_avg xs = (if xs = [] then None else Some (sum_list xs / real (length xs)))"

definition sql_min :: "int list \<Rightarrow> int option" where
  "sql_min xs = (if xs = [] then None else Some (Min (set xs)))"

definition sql_max :: "int list \<Rightarrow> int option" where
  "sql_max xs = (if xs = [] then None else Some (Max (set xs)))"

section \<open>Scorers\<close>

datatype mood = Positive | Negative | Neutral

record sentiment =
  polarity :: real
  subjectivity :: real
  mood :: mood
  confidence :: real

text \<open>
  \<open>TextBlob(text).sentiment\<close> is an external library: it is a parameter of the model,
  a function from the text to the pair (polarity, subjectivity).
\<close>

type_synonym textblob = "string \<Rightarrow> real \<times> real"

definition mood_of :: "real \<Rightarrow> mood" where
  \<comment> \<open>the threshold chain that \<open>analyze_sentiment\<close>, the weekly summary and the stats
      report each write out\<close>
  "mood_of p = (if p > 0.1 then Positive else if p < - 0.1 then Negative else Neutral)"

definition analyze_sentiment :: "textblob \<Rightarrow> string \<Rightarrow> sentiment" where
  "analyze_sentiment blob text =
     (let p = fst (blob text);
          s = snd (blob text);
          m = (if p > 0.1 then Positive else if p < - 0.1 then Negative else Neutral)
      in \<lparr>polarity = p, subjectivity = s, mood = m, confidence = \<bar>p\<bar>\<rparr>)"

datatype stress_category = High_Stress | Moderate_Stress | Low_Stress

record stress =
  level :: int
  category :: stress_category

definition detect_stress_level :: "string \<Rightarrow> stress" where
  "detect_stress_level text =
     (let text_lower = lower text;
          stress_count = int (length (filter (\<lambda>keyword. contains text_lower keyword) stress_keywords));
          stress_level = min (stress_count * 2) 10
      in if stress_level \<ge> 7 then \<lparr>level = stress_level, category = High_Stress\<rparr>
         else if stress_level \<ge> 4 then \<lparr>level = stress_level, category = Moderate_Stress\<rparr>
         else \<lparr>level = stress_level, category = Low_Stress\<rparr>)"

definition all_text :: "database \<Rightarrow> int \<Rightarrow> string" where
  \<comment> \<open>the lower-cased texts of the 50 most recent messages, joined by one space\<close>
  "all_text db uid = join '' '' (map (\<lambda>row. lower (message_text row)) (recent_messages 50 db uid))"

definition analyze_personality :: "database \<Rightarrow> int \<Rightarrow> (string \<times> int) list" where
  \<comment> \<open>the dict \<open>personality_scores\<close>, in insertion order\<close>
  "analyze_personality db uid =
     map (\<lambda>(trait, keywords).
            (trait, min (int (sum_list (map (\<lambda>keyword. count_sub (all_text db uid) keyword) keywords)) * 5) 100))
         personality_indicators"

section \<open>Report handlers\<close>

text \<open>
  Each handler reads the database and sends one reply. The model returns the reply as
  data (the numbers and labels that the handler formats into the message text; emoji,
  bullets and Markdown are left out) together with the database after the call. An
  exception that the handler's arithmetic or formatting can raise is an \<open>Inl\<close> result.
\<close>

subsection \<open>/mood\<close>

record mood_report =
  current_mood :: mood
  current_stress :: stress_category
  emotional_intensity :: real
  average_sentiment :: real
  mood_trend :: string
  message_analysis_count :: nat
  insights :: "string list"

definition mood_analysis :: "textblob \<Rightarrow> database \<Rightarrow> int \<Rightarrow> mood_report reply \<times> database" where
  "mood_analysis blob db uid =
     (let recent_data = recent_messages 20 db uid in
      if recent_data = [] then (Insufficient_Data, db)
      else
        let sentiments = map sentiment_score recent_data;
            avg_sentiment = sum_list sentiments / real (length sentiments);
            trend = (if length sentiments > 1 \<and> hd sentiments > last sentiments
                     then ''improving'' else ''declining'');
            latest_text = message_text (hd recent_data);
            current_sentiment = analyze_sentiment blob latest_text;
            stress = detect_stress_level latest_text
        in (Report
              \<lparr>current_mood = mood current_sentiment,
               current_stress = category stress,
               emotional_intensity = confidence current_sentiment,
               average_sentiment = avg_sentiment,
               mood_trend = trend,
               message_analysis_count = length recent_data,
               insights =
                 (if avg_sentiment < - 0.3
                  then [''Consider talking to someone you trust'',
                        ''Try some relaxation techniques'']
                  else if avg_sentiment > 0.3
                  then [''Great positive energy! Keep it up!'',
                        ''You seem to be in a good mental space'']
                  else [''Your mood seems balanced'',
                        ''Continue monitoring your emotional patterns''])
                 @ (if level stress > 5
                    then [''High stress detected - take breaks when possible'']
                    else [])\<rparr>,
            db))"

subsection \<open>/personality\<close>

fun py_max_key :: "(string \<times> int) list \<Rightarrow> string option" where
  \<comment> \<open>\<open>max(d, key=d.get)\<close>: the first key, in iteration order, whose value is maximal;
      \<open>None\<close> stands for the ValueError on an empty dict\<close>
  "py_max_key [] = None"
| "py_max_key (kv # kvs) =
     Some (fst (foldl (\<lambda>best cur. if snd cur > snd best then cur else best) kv kvs))"

definition score_of :: "(string \<times> int) list \<Rightarrow> string \<Rightarrow> int" where
  \<comment> \<open>\<open>personality_scores[trait]\<close> for one of the five traits\<close>
  "score_of scores trait = (case map_of scores trait of Some s \<Rightarrow> s | None \<Rightarrow> 0)"

record personality_report =
  trait_bars :: "(string \<times> nat \<times> nat \<times> int) list"
  dominant_trait :: string
  trait_insights :: "string list"

definition personality_analysis ::
    "database \<Rightarrow> int \<Rightarrow> (error + personality_report reply) \<times> database" where
  "personality_analysis db uid =
     (let personality_scores = analyze_personality db uid in
      if \<not> list_ex (\<lambda>score. score \<noteq> 0) (map snd personality_scores)
      then (Inr Insufficient_Data, db)
      else
        case py_max_key personality_scores of
          None \<Rightarrow> (Inl ValueError, db)
        | Some dominant \<Rightarrow>
            (Inr (Report
               \<lparr>trait_bars =
                  map (\<lambda>(trait, score).
                         (trait, nat (score div 10), nat (10 - score div 10), score))
                      personality_scores,
                dominant_trait = dominant,
                trait_insights =
                  (if score_of personality_scores ''extraversion'' > 60
                   then [''You seem socially engaged and outgoing''] else [])
                  @ (if score_of personality_scores ''openness'' > 70
                     then [''You show creativity and openness to new ideas''] else [])
                  @ (if score_of personality_scores ''conscientiousness'' > 65
                     then [''You demonstrate good organization skills''] else [])
                  @ (if score_of personality_scores ''agreeableness'' > 70
                     then [''You show cooperative and helpful tendencies''] else [])
                  @ (if score_of personality_scores ''neuroticism'' > 60
                     then [''You may be sensitive to stress - practice self-care'']
                     else [])\<rparr>),
             db))"

subsection \<open>/report\<close>

definition period_of_hour :: "int \<Rightarrow> string" where
  \<comment> \<open>the \<open>CASE\<close> expression of the activity query; SQL's \<open>x BETWEEN a AND b\<close> is
      \<open>a \<le> x \<and> x \<le> b\<close>, and the first \<open>WHEN\<close> that holds decides\<close>
  "period_of_hour h =
     (if 6 \<le> h \<and> h \<le> 12 then ''Morning''
      else if 12 \<le> h \<and> h \<le> 18 then ''Afternoon''
      else if 18 \<le> h \<and> h \<le> 22 then ''Evening''
      else ''Night'')"

definition time_period :: "message \<Rightarrow> string" where
  "time_period row = period_of_hour (strftime_H (timestamp row))"

definition time_patterns :: "database \<Rightarrow> int \<Rightarrow> (string \<times> nat) list" where
  \<comment> \<open>\<open>GROUP BY time_period ORDER BY msg_count DESC\<close>: one row for each period that
      has a message, sorted by count, the largest first. SQL leaves the order of rows
      with equal counts open; SQLite returns them in descending key order (Night,
      Morning, Evening, Afternoon), which is the groups in key order, sorted by count,
      read backwards\<close>
  "time_patterns db uid =
     (let periods = map time_period (user_messages db uid);
          groups = map (\<lambda>p. (p, count_list periods p))
                     (filter (\<lambda>p. p \<in> set periods)
                        [''Afternoon'', ''Evening'', ''Morning'', ''Night''])
      in rev (sort_key (\<lambda>(p, c). c) groups))"

definition daily_data :: "database \<Rightarrow> datetime \<Rightarrow> int \<Rightarrow> (int \<times> real \<times> nat) list" where
  \<comment> \<open>\<open>WHERE user_id = ? AND timestamp > ? GROUP BY DATE(timestamp)
      ORDER BY DATE(timestamp)\<close>\<close>
  "daily_data db week_ago uid =
     (let rows = filter (\<lambda>m. timestamp m > week_ago) (user_messages db uid);
          dates = remdups (sort (map (\<lambda>m. DATE (timestamp m)) rows))
      in map (\<lambda>d. let g = filter (\<lambda>m. DATE (timestamp m) = d) rows
                   in (d, sum_list (map sentiment_score g) / real (length g), length g))
             dates)"

record behavior_report =
  total_messages_analyzed :: nat
  report_avg_sentiment :: real
  report_avg_words :: real
  weekly_summary :: "(int \<times> nat \<times> mood \<times> real) list"
  personality_above_average :: "(string \<times> int) list"
  most_active :: "string option"
  activity_patterns :: "(string \<times> nat \<times> real) list"
  recommendations :: "string list"

definition generate_report ::
    "database \<Rightarrow> datetime \<Rightarrow> int \<Rightarrow> (error + behavior_report reply) \<times> database" where
  "generate_report db now uid =
     (let rows = user_messages db uid;
          count = length rows;
          avg_s = sql_avg (map sentiment_score rows);
          avg_w = sql_avg (map (\<lambda>m. real_of_int (word_count m)) rows)
      in if count < 5 then (Inr Insufficient_Data, db)
         else
           case (avg_s, avg_w) of
             (Some avg_sentiment, Some avg_words) \<Rightarrow>
               (let week_ago = now - 7 * us_per_day;
                    personality = analyze_personality db uid;
                    patterns = time_patterns db uid
                in (Inr (Report
                      \<lparr>total_messages_analyzed = count,
                       report_avg_sentiment = avg_sentiment,
                       report_avg_words = avg_words,
                       weekly_summary =
                         map (\<lambda>(date, sentiment, cnt). (date, cnt, mood_of sentiment, sentiment))
                             (daily_data db week_ago uid),
                       personality_above_average =
                         filter (\<lambda>(trait, score). score > 50) personality,
                       most_active =
                         (case patterns of [] \<Rightarrow> None | row # _ \<Rightarrow> Some (fst row)),
                       activity_patterns =
                         map (\<lambda>(period, cnt). (period, cnt, real cnt / real count * 100))
                             patterns,
                       recommendations =
                         (if avg_sentiment < - 0.2
                          then [''Consider practicing gratitude or positive self-talk'',
                                ''Engage in activities that boost your mood'']
                          else if avg_sentiment > 0.2
                          then [''Great positive outlook! Keep it up!'',
                                ''Share your positivity with others'']
                          else [])
                         @ (if avg_words < 5
                            then [''Try expressing yourself more - longer messages provide better insights'']
                            else [])\<rparr>),
                    db))
           | _ \<Rightarrow> (Inl TypeError, db))"

subsection \<open>/stats\<close>

record stats_report =
  total_msgs :: nat
  days_active :: int
  messages_per_day :: real
  stats_avg_sentiment :: real
  mood_category :: mood
  last_message :: "int option"
  analysis_accuracy :: int

definition days_active_of :: "int option \<Rightarrow> datetime \<Rightarrow> int" where
  \<comment> \<open>the \<open>if stats[3]: ... else: days_active = 1\<close> block; \<open>first\<close> is
      \<open>MIN(timestamp)\<close>\<close>
  "days_active_of first now =
     (case first of Some first_msg \<Rightarrow> timedelta_days now first_msg + 1 | None \<Rightarrow> 1)"

definition user_stats ::
    "database \<Rightarrow> datetime \<Rightarrow> int \<Rightarrow> (error + stats_report reply) \<times> database" where
  "user_stats db now uid =
     (let rows = user_messages db uid;
          total = length rows;
          avg = sql_avg (map sentiment_score rows);
          last_msg = sql_max (map timestamp rows);
          first_msg = sql_min (map timestamp rows)
      in if total = 0 then (Inr Insufficient_Data, db)
         else
           let d = days_active_of first_msg now
           in if d = 0 then (Inl ZeroDivisionError, db)
              else
                case avg of
                  None \<Rightarrow> (Inl TypeError, db)
                | Some a \<Rightarrow>
                    (Inr (Report
                       \<lparr>total_msgs = total,
                        days_active = d,
                        messages_per_day = real total / real_of_int d,
                        stats_avg_sentiment = a,
                        mood_category = mood_of a,
                        last_message = map_option DATE last_msg,
                        analysis_accuracy = min (int total * 5) 95\<rparr>),
                     db))"

section \<open>The specification's notions\<close>

text \<open>
  The definitions of this section follow the words of the specification, not the code;
  the theorems below compare the code with them.
\<close>

definition occurs_case_insensitively :: "string \<Rightarrow> string \<Rightarrow> bool" where
  \<comment> \<open>some substring of the text equals the keyword up to the case of its letters\<close>
  "occurs_case_insensitively keyword text =
     (\<exists>s. sublist s text \<and> lower s = lower keyword)"

definition stress_keywords_present :: "string \<Rightarrow> nat" where
  \<comment> \<open>the number of distinct stress keywords that occur in the text\<close>
  "stress_keywords_present text =
     card {keyword \<in> set stress_keywords. occurs_case_insensitively keyword text}"

definition raw_count :: "database \<Rightarrow> int \<Rightarrow> string list \<Rightarrow> nat" where
  \<comment> \<open>the summed occurrence count of a keyword list over the lower-cased window\<close>
  "raw_count db uid keywords =
     sum_list (map (\<lambda>keyword.
        count_sub (lower (join '' '' (map message_text (recent_messages 50 db uid)))) keyword)
        keywords)"

definition inclusive_day_count :: "datetime \<Rightarrow> datetime \<Rightarrow> int" where
  \<comment> \<open>the calendar days from the first date to the current date, both counted\<close>
  "inclusive_day_count first_msg now = DATE now - DATE first_msg + 1"

definition spec_bucket :: "int \<Rightarrow> string" where
  \<comment> \<open>Morning [06:00,12:00), Afternoon [12:00,18:00), Evening [18:00,22:00), Night\<close>
  "spec_bucket h =
     (if 6 \<le> h \<and> h < 12 then ''Morning''
      else if 12 \<le> h \<and> h < 18 then ''Afternoon''
      else if 18 \<le> h \<and> h < 22 then ''Evening''
      else ''Night'')"

section \<open>Example databases\<close>

definition empty_db :: database where
  "empty_db = \<lparr>users = [], messages = []\<rparr>"

definition example_db :: database where
  \<comment> \<open>user 7 has sent one message, at 23:00 on day 0\<close>
  "example_db = \<lparr>users = [], messages =
     [\<lparr>user_id = 7, message_text = ''hello'', timestamp = mk_datetime 0 23 0 0,
       sentiment_score = 0.4, word_count = 1\<rparr>]\<rparr>"

definition with_other_user :: "database \<Rightarrow> database" where
  \<comment> \<open>the database after user 8 has registered and sent a message\<close>
  "with_other_user db =
     \<lparr>users = users db @ [\<lparr>u_user_id = 8, username = ''bob'', first_name = ''Bob'',
                            registration_date = mk_datetime 2 8 0 0, total_messages = 1\<rparr>],
      messages = messages db @ [\<lparr>user_id = 8, message_text = ''party with friends'',
                                timestamp = mk_datetime 2 8 0 0, sentiment_score = 0.9,
                                word_count = 3\<rparr>]\<rparr>"

definition trend_db :: database where
  \<comment> \<open>user 7 has sent three messages; the oldest has polarity -0.5, the newest 0.4\<close>
  "trend_db = \<lparr>users = [], messages =
     [\<lparr>user_id = 7, message_text = ''bad day'', timestamp = mk_datetime 0 9 0 0,
       sentiment_score = - 0.5, word_count = 2\<rparr>,
      \<lparr>user_id = 8, message_text = ''someone else'', timestamp = mk_datetime 0 10 0 0,
       sentiment_score = 0.9, word_count = 2\<rparr>,
      \<lparr>user_id = 7, message_text = ''fine'', timestamp = mk_datetime 0 11 0 0,
       sentiment_score = 0, word_count = 1\<rparr>,
      \<lparr>user_id = 7, message_text = ''good day'', timestamp = mk_datetime 1 9 0 0,
       sentiment_score = 0.4, word_count = 2\<rparr>]\<rparr>"

definition party_db :: "nat \<Rightarrow> database" where
  \<comment> \<open>user 7 has sent one message, the word "Party" n times\<close>
  "party_db n = \<lparr>users = [], messages =
     [\<lparr>user_id = 7, message_text = join '' '' (replicate n ''Party''),
       timestamp = mk_datetime 0 9 0 0, sentiment_score = 0, word_count = int n\<rparr>]\<rparr>"

definition boundary_db :: database where
  \<comment> \<open>user 7 has sent messages at 12:00, 12:30, 12:59, 18:00 and 22:00 on day 0\<close>
  "boundary_db = \<lparr>users = [], messages =
     [\<lparr>user_id = 7, message_text = ''lunch'', timestamp = mk_datetime 0 12 0 0,
       sentiment_score = 0, word_count = 1\<rparr>,
      \<lparr>user_id = 7, message_text = ''still lunch'', timestamp = mk_datetime 0 12 30 0,
       sentiment_score = 0, word_count = 2\<rparr>,
      \<lparr>user_id = 7, message_text = ''back'', timestamp = mk_datetime 0 12 59 0,
       sentiment_score = 0, word_count = 1\<rparr>,
      \<lparr>user_id = 7, message_text = ''home'', timestamp = mk_datetime 0 18 0 0,
       sentiment_score = 0, word_count = 1\<rparr>,
      \<lparr>user_id = 7, message_text = ''late'', timestamp = mk_datetime 0 22 0 0,
       sentiment_score = 0, word_count = 1\<rparr>]\<rparr>"

definition four_db :: database where
  \<comment> \<open>user 7 has sent messages at 07:00, 14:00, 20:00 and 23:00 on day 0\<close>
  "four_db = \<lparr>users = [], messages =
     [\<lparr>user_id = 7, message_text = ''up'', timestamp = mk_datetime 0 7 0 0,
       sentiment_score = 0, word_count = 1\<rparr>,
      \<lparr>user_id = 7, message_text = ''tea'', timestamp = mk_datetime 0 14 0 0,
       sentiment_score = 0, word_count = 1\<rparr>,
      \<lparr>user_id = 7, message_text = ''dinner'', timestamp = mk_datetime 0 20 0 0,
       sentiment_score = 0, word_count = 1\<rparr>,
      \<lparr>user_id = 7, message_text = ''night'', timestamp = mk_datetime 0 23 0 0,
       sentiment_score = 0, word_count = 1\<rparr>]\<rparr>"

section \<open>Substring search\<close>

lemma contains_iff_sublist: "contains text sub \<longleftrightarrow> sublist sub text"
  by (induction "text") (auto simp: sublist_Cons_right)

lemma sublist_map_iff: "sublist ys (map f xs) \<longleftrightarrow> (\<exists>s. sublist s xs \<and> map f s = ys)"
proof
  assume "sublist ys (map f xs)"
  then obtain ps ss where "map f xs = ps @ ys @ ss" by (auto simp: sublist_def)
  then obtain a b c where "xs = a @ b @ c" "map f b = ys"
    by (auto simp: map_eq_append_conv append_eq_map_conv)
  then show "\<exists>s. sublist s xs \<and> map f s = ys" by (auto simp: sublist_def)
next
  assume "\<exists>s. sublist s xs \<and> map f s = ys"
  then obtain s ps ss where "xs = ps @ s @ ss" "map f s = ys" by (auto simp: sublist_def)
  then have "map f xs = map f ps @ ys @ map f ss" by simp
  then show "sublist ys (map f xs)" unfolding sublist_def by blast
qed

section \<open>The stress detector\<close>

lemma lower_stress_keyword: "keyword \<in> set stress_keywords \<Longrightarrow> lower keyword = keyword"
  by (auto simp: stress_keywords_def lower_def lower_char_def)

lemma distinct_stress_keywords: "distinct stress_keywords"
  by (simp add: stress_keywords_def)

lemma contains_lower_iff:
  "keyword \<in> set stress_keywords \<Longrightarrow>
     contains (lower text) keyword \<longleftrightarrow> occurs_case_insensitively keyword text"
  by (simp add: contains_iff_sublist occurs_case_insensitively_def lower_stress_keyword)
     (simp add: lower_def sublist_map_iff)

lemma stress_count_eq:
  "length (filter (\<lambda>keyword. contains (lower text) keyword) stress_keywords)
     = stress_keywords_present text"
proof -
  have "filter (\<lambda>keyword. contains (lower text) keyword) stress_keywords
        = filter (\<lambda>keyword. occurs_case_insensitively keyword text) stress_keywords"
    by (rule filter_cong) (simp_all add: contains_lower_iff)
  moreover have "{keyword \<in> set stress_keywords. occurs_case_insensitively keyword text}
     = {keyword. occurs_case_insensitively keyword text} \<inter> set stress_keywords" by auto
  ultimately show ?thesis
    by (simp add: stress_keywords_present_def distinct_length_filter distinct_stress_keywords)
qed

lemma stress_keywords_present_le: "stress_keywords_present text \<le> 7"
proof -
  have "length (filter (\<lambda>keyword. contains (lower text) keyword) stress_keywords)
          \<le> length stress_keywords"
    by (rule length_filter_le)
  moreover have "length stress_keywords = 7" by (simp add: stress_keywords_def)
  ultimately show ?thesis by (simp only: stress_count_eq)
qed

lemma level_eq:
  "level (detect_stress_level text) = min (2 * int (stress_keywords_present text)) 10"
  by (simp add: detect_stress_level_def Let_def stress_count_eq mult.commute)

lemma category_eq:
  "category (detect_stress_level text) =
     (if level (detect_stress_level text) \<ge> 7 then High_Stress
      else if level (detect_stress_level text) \<ge> 4 then Moderate_Stress
      else Low_Stress)"
  by (simp add: detect_stress_level_def Let_def)

lemma scenario_1_level:
  "detect_stress_level ''I am so stressed and overwhelmed, the deadline is too much''
     = \<lparr>level = 6, category = Moderate_Stress\<rparr>"
  by (simp add: detect_stress_level_def Let_def stress_keywords_def lower_def lower_char_def)

lemma scenario_1_count:
  "stress_keywords_present ''I am so stressed and overwhelmed, the deadline is too much'' = 3"
  unfolding stress_count_eq [symmetric]
  by (simp add: stress_keywords_def lower_def lower_char_def)

text \<open>
  C3. For every message text the stress detector returns the level \<open>min(2*k, 10)\<close>, where
  \<open>k\<close> is the number of distinct stress keywords that occur case-insensitively as
  substrings of the text, and the category High when the level is at least 7, Moderate
  when it is at least 4 and below 7, Low otherwise. The text "I am so stressed and
  overwhelmed, the deadline is too much" has \<open>k = 3\<close>, level 6 and category Moderate.
\<close>

theorem detect_stress_level_correct:
  "level (detect_stress_level text) = min (2 * int (stress_keywords_present text)) 10
   \<and> category (detect_stress_level text) =
       (if level (detect_stress_level text) \<ge> 7 then High_Stress
        else if level (detect_stress_level text) \<ge> 4 then Moderate_Stress
        else Low_Stress)
   \<and> stress_keywords_present ''I am so stressed and overwhelmed, the deadline is too much'' = 3
   \<and> detect_stress_level ''I am so stressed and overwhelmed, the deadline is too much''
       = \<lparr>level = 6, category = Moderate_Stress\<rparr>"
  using level_eq [of "text"] category_eq [of "text"] scenario_1_level scenario_1_count
  by (simp only: simp_thms)

text \<open>
  C10. The stress level is always one of 0, 2, 4, 6, 8, 10, so it is never 7 or 9, and
  the category is High exactly when at least 4 distinct stress keywords are present.
\<close>

theorem stress_level_even:
  "level (detect_stress_level text) \<in> {0, 2, 4, 6, 8, 10}
   \<and> level (detect_stress_level text) \<noteq> 7
   \<and> level (detect_stress_level text) \<noteq> 9
   \<and> (category (detect_stress_level text) = High_Stress
        \<longleftrightarrow> 4 \<le> stress_keywords_present text)"
proof -
  define k where "k = stress_keywords_present text"
  have l: "level (detect_stress_level text) = min (2 * int k) 10"
    by (simp add: k_def level_eq)
  have c: "category (detect_stress_level text) =
     (if min (2 * int k) 10 \<ge> 7 then High_Stress
      else if min (2 * int k) 10 \<ge> 4 then Moderate_Stress else Low_Stress)"
    using category_eq [of "text"] by (simp only: l)
  have "k \<le> 7" by (simp add: k_def stress_keywords_present_le)
  then consider "k = 0" | "k = 1" | "k = 2" | "k = 3" | "k = 4" | "k = 5" | "k = 6" | "k = 7"
    by linarith
  then have "min (2 * int k) 10 \<in> {0, 2, 4, 6, 8, 10}
      \<and> min (2 * int k) 10 \<noteq> 7 \<and> min (2 * int k) 10 \<noteq> 9
      \<and> ((if min (2 * int k) 10 \<ge> 7 then High_Stress
           else if min (2 * int k) 10 \<ge> 4 then Moderate_Stress else Low_Stress) = High_Stress
          \<longleftrightarrow> 4 \<le> k)"
    by cases simp_all
  then show ?thesis
    unfolding l c k_def by simp
qed

section \<open>The sentiment scorer\<close>

text \<open>
  C5. For every message text the sentiment scorer returns the confidence \<open>|polarity|\<close>
  and the mood Positive exactly when the polarity is above 0.1, Negative exactly when it
  is below -0.1, and Neutral otherwise; the polarities 0.1 and -0.1 are Neutral.
\<close>

theorem analyze_sentiment_thresholds:
  "polarity (analyze_sentiment blob text) = fst (blob text)
   \<and> confidence (analyze_sentiment blob text) = \<bar>polarity (analyze_sentiment blob text)\<bar>
   \<and> (mood (analyze_sentiment blob text) = Positive
        \<longleftrightarrow> polarity (analyze_sentiment blob text) > 0.1)
   \<and> (mood (analyze_sentiment blob text) = Negative
        \<longleftrightarrow> polarity (analyze_sentiment blob text) < - 0.1)
   \<and> (mood (analyze_sentiment blob text) = Neutral
        \<longleftrightarrow> - 0.1 \<le> polarity (analyze_sentiment blob text)
            \<and> polarity (analyze_sentiment blob text) \<le> 0.1)
   \<and> mood (analyze_sentiment (\<lambda>t. (0.1, s)) text) = Neutral
   \<and> mood (analyze_sentiment (\<lambda>t. (- 0.1, s)) text) = Neutral"
  by (auto simp: analyze_sentiment_def Let_def)

section \<open>The comprehensive report\<close>

text \<open>
  C6. The comprehensive report answers "insufficient data" if and only if the user has
  fewer than 5 messages in the messages table (so with exactly 4 it does, and with 5 or
  more it answers with a report), and the handler leaves the database as it was.
\<close>

theorem generate_report_threshold:
  "(fst (generate_report db now uid) = Inr Insufficient_Data
      \<longleftrightarrow> length (user_messages db uid) < 5)
   \<and> ((\<exists>r. fst (generate_report db now uid) = Inr (Report r))
      \<longleftrightarrow> 5 \<le> length (user_messages db uid))
   \<and> snd (generate_report db now uid) = db"
  by (auto simp: generate_report_def Let_def sql_avg_def)

section \<open>The stats report\<close>

text \<open>
  C7 as stated fails: the days-active value is not the inclusive count of calendar days.
  A first message at 23:00 on day 0 and a request at 01:00 on day 1 give days-active 1,
  where the calendar days from day 0 to day 1 are 2.
\<close>

theorem days_active_counterexample:
  "fst (user_stats example_db (mk_datetime 1 1 0 0) 7)
     = Inr (Report \<lparr>total_msgs = 1, days_active = 1, messages_per_day = 1,
                    stats_avg_sentiment = 0.4, mood_category = Positive,
                    last_message = Some 0, analysis_accuracy = 5\<rparr>)
   \<and> inclusive_day_count (mk_datetime 0 23 0 0) (mk_datetime 1 1 0 0) = 2"
  by (simp add: user_stats_def example_db_def user_messages_def Let_def sql_avg_def sql_min_def
      sql_max_def days_active_of_def timedelta_days_def mk_datetime_def us_per_day_def
      inclusive_day_count_def DATE_def mood_of_def)

text \<open>
  A clock reading earlier than the first message (the local clock set back, as at the
  end of daylight saving time) by less than a day makes days-active 0, and the ratio
  raises.
\<close>

lemma user_stats_clock_set_back:
  "fst (user_stats example_db (mk_datetime 0 22 0 0) 7) = Inl ZeroDivisionError"
  by (simp add: user_stats_def example_db_def user_messages_def Let_def sql_avg_def sql_min_def
      sql_max_def days_active_of_def timedelta_days_def mk_datetime_def us_per_day_def)

text \<open>
  C7, amended. For every user with at least one stored message, whose first message is
  not later than the current clock reading, the stats report's days-active value is the
  number of whole 24-hour periods elapsed since the first message's timestamp, plus one;
  it is at least 1, and the messages-per-day ratio is the total count divided by it.
\<close>

theorem days_active_elapsed:
  assumes "sql_min (map timestamp (user_messages db uid)) = Some first_msg"
    and "first_msg \<le> now"
  shows "\<exists>r. fst (user_stats db now uid) = Inr (Report r)
           \<and> days_active r = timedelta_days now first_msg + 1
           \<and> 1 \<le> days_active r
           \<and> total_msgs r = length (user_messages db uid)
           \<and> messages_per_day r = real (total_msgs r) / real_of_int (days_active r)"
proof -
  from assms(1) have ne: "user_messages db uid \<noteq> []"
    by (auto simp: sql_min_def split: if_splits)
  have "0 \<le> (now - first_msg) div us_per_day"
    using assms(2) by (simp add: us_per_day_def pos_imp_zdiv_nonneg_iff)
  then have d: "1 \<le> timedelta_days now first_msg + 1"
    by (simp add: timedelta_days_def)
  show ?thesis
    using ne d assms(1)
    by (simp add: user_stats_def Let_def sql_avg_def days_active_of_def)
qed

theorem days_active_elapsed_witness:
  "\<exists>r. fst (user_stats example_db (mk_datetime 1 1 0 0) 7) = Inr (Report r)
      \<and> days_active r = 1 \<and> messages_per_day r = 1"
proof -
  have m: "sql_min (map timestamp (user_messages example_db 7)) = Some (mk_datetime 0 23 0 0)"
    by (simp add: example_db_def user_messages_def sql_min_def)
  have le: "mk_datetime 0 23 0 0 \<le> mk_datetime 1 1 0 0"
    by (simp add: mk_datetime_def)
  have t: "timedelta_days (mk_datetime 1 1 0 0) (mk_datetime 0 23 0 0) = 0"
    by (simp add: timedelta_days_def mk_datetime_def us_per_day_def)
  have n: "length (user_messages example_db 7) = 1"
    by (simp add: example_db_def user_messages_def)
  from days_active_elapsed [OF m le] show ?thesis
    by (auto simp: t n)
qed

section \<open>The trait scorer\<close>

subsection \<open>Counting across the joined window\<close>

lemma not_prefix_append_sep:
  assumes "c \<notin> set sub" and "\<not> prefix sub a"
  shows "\<not> prefix sub (a @ c # b)"
proof
  assume "prefix sub (a @ c # b)"
  then consider "prefix sub a" | us where "sub = a @ us" "prefix us (c # b)"
    by (auto simp: prefix_append)
  then show False
  proof cases
    case 1
    with assms(2) show False by simp
  next
    case 2
    show False
    proof (cases us)
      case Nil
      with 2 assms(2) show False by simp
    next
      case (Cons u us')
      with 2 have "c \<in> set sub" by auto
      with assms(1) show False by simp
    qed
  qed
qed

text \<open>A keyword without the separator never matches across it.\<close>

lemma count_sub_sep:
  assumes "sub \<noteq> []" and "c \<notin> set sub"
  shows "count_sub (a @ c # b) sub = count_sub a sub + count_sub b sub"
  using assms
proof (induction a sub rule: count_sub.induct)
  case (1 a sub)
  show ?case
  proof (cases "a = []")
    case True
    have "\<not> prefix sub (c # b)"
      using "1.prems" by (cases sub) auto
    then show ?thesis
      using True "1.prems"
      by (simp add: count_sub.simps [of "c # b" sub] count_sub.simps [of "[]" sub])
  next
    case False
    show ?thesis
    proof (cases "prefix sub a")
      case True
      then have p: "prefix sub (a @ c # b)" by (rule prefix_prefix)
      have "length sub \<le> length a" using True by (rule prefix_length_le)
      then have d: "drop (length sub) (a @ c # b) = drop (length sub) a @ c # b" by simp
      have "count_sub (drop (length sub) a @ c # b) sub
              = count_sub (drop (length sub) a) sub + count_sub b sub"
        using "1.IH"(1) [OF "1.prems"(1) False True] "1.prems" by simp
      then show ?thesis
        using False True p d "1.prems"(1)
        by (simp add: count_sub.simps [of "a @ c # b" sub] count_sub.simps [of a sub])
    next
      case np: False
      have n: "\<not> prefix sub (a @ c # b)"
        using "1.prems"(2) np by (rule not_prefix_append_sep)
      have t: "tl (a @ c # b) = tl a @ c # b" using False by simp
      have "count_sub (tl a @ c # b) sub = count_sub (tl a) sub + count_sub b sub"
        using "1.IH"(2) [OF "1.prems"(1) False np] "1.prems" by simp
      then show ?thesis
        using False np n t "1.prems"(1)
        by (simp add: count_sub.simps [of "a @ c # b" sub] count_sub.simps [of a sub])
    qed
  qed
qed

lemma count_sub_join:
  assumes "sub \<noteq> []" and "c \<notin> set sub"
  shows "count_sub (join [c] xs) sub = (\<Sum>x\<leftarrow>xs. count_sub x sub)"
proof (induction "[c]" xs rule: join.induct)
  case 1
  show ?case using assms(1) by (simp add: count_sub.simps [of "[]" sub])
next
  case (2 x)
  show ?case by simp
next
  case (3 x y ys)
  then show ?case using count_sub_sep [OF assms, of x "join [c] (y # ys)"] by simp
qed

lemma keywords_plain:
  "(trait, keywords) \<in> set personality_indicators \<Longrightarrow> keyword \<in> set keywords \<Longrightarrow>
     keyword \<noteq> [] \<and> CHR '' '' \<notin> set keyword"
  by (auto simp: personality_indicators_def)

lemma lower_join: "lower sep = sep \<Longrightarrow> lower (join sep xs) = join sep (map lower xs)"
  by (induction sep xs rule: join.induct) (simp_all add: lower_def)

lemma lower_space: "lower '' '' = '' ''"
  by (simp add: lower_def lower_char_def)

lemma raw_count_per_message:
  assumes "(trait, keywords) \<in> set personality_indicators"
  shows "raw_count db uid keywords =
     (\<Sum>keyword\<leftarrow>keywords. \<Sum>row\<leftarrow>recent_messages 50 db uid.
         count_sub (lower (message_text row)) keyword)"
proof -
  have "count_sub (lower (join '' '' (map message_text (recent_messages 50 db uid)))) keyword
      = (\<Sum>row\<leftarrow>recent_messages 50 db uid. count_sub (lower (message_text row)) keyword)"
    if "keyword \<in> set keywords" for keyword
    using keywords_plain [OF assms that]
    by (simp add: lower_join [OF lower_space] count_sub_join comp_def)
  then show ?thesis
    unfolding raw_count_def by (simp cong: map_cong)
qed

subsection \<open>The scores\<close>

lemma all_text_eq:
  "all_text db uid = lower (join '' '' (map message_text (recent_messages 50 db uid)))"
  by (simp add: all_text_def lower_join [OF lower_space] comp_def)

lemma analyze_personality_eq:
  "analyze_personality db uid =
     map (\<lambda>(trait, keywords). (trait, min (5 * int (raw_count db uid keywords)) 100))
         personality_indicators"
  by (simp add: analyze_personality_def raw_count_def all_text_eq mult.commute)

lemma analyze_personality_keys:
  "map fst (analyze_personality db uid) =
     [''extraversion'', ''openness'', ''conscientiousness'', ''agreeableness'', ''neuroticism'']"
  by (simp add: analyze_personality_eq personality_indicators_def)

lemma analyze_personality_length: "length (analyze_personality db uid) = 5"
  by (simp add: analyze_personality_def personality_indicators_def)

lemma analyze_personality_range:
  "(trait, score) \<in> set (analyze_personality db uid) \<Longrightarrow> 0 \<le> score \<and> score \<le> 100"
  by (auto simp: analyze_personality_eq)

lemma score_of_eq:
  "(trait, keywords) \<in> set personality_indicators \<Longrightarrow>
     score_of (analyze_personality db uid) trait = min (5 * int (raw_count db uid keywords)) 100"
  unfolding analyze_personality_eq score_of_def
  by (auto simp: personality_indicators_def)

text \<open>
  C4. Each of the five trait scores is \<open>min(5 * raw_count, 100)\<close>, where \<open>raw_count\<close>
  sums, over the trait's keywords, Python's \<open>count\<close> of the keyword in the lower-cased
  text of the window: the texts of the at most 50 most recent messages, joined by single
  spaces. No keyword holds a space, so \<open>raw_count\<close> is also the sum of the counts in the
  single messages. Every score is an integer between 0 and 100, a larger \<open>raw_count\<close>
  never gives a smaller score, and from \<open>raw_count\<close> 20 on the score is 100.
\<close>

theorem trait_scores:
  "analyze_personality db uid =
     map (\<lambda>(trait, keywords). (trait, min (5 * int (raw_count db uid keywords)) 100))
         personality_indicators
   \<and> map fst (analyze_personality db uid) =
       [''extraversion'', ''openness'', ''conscientiousness'', ''agreeableness'',
        ''neuroticism'']
   \<and> length (recent_messages 50 db uid) \<le> 50
   \<and> (\<forall>(trait, score) \<in> set (analyze_personality db uid). 0 \<le> score \<and> score \<le> 100)
   \<and> (\<forall>(trait, keywords) \<in> set personality_indicators.
        score_of (analyze_personality db uid) trait
          = min (5 * int (raw_count db uid keywords)) 100
        \<and> raw_count db uid keywords =
            (\<Sum>keyword\<leftarrow>keywords. \<Sum>row\<leftarrow>recent_messages 50 db uid.
                count_sub (lower (message_text row)) keyword)
        \<and> (raw_count db uid keywords \<le> raw_count db' uid' keywords
             \<longrightarrow> score_of (analyze_personality db uid) trait
                   \<le> score_of (analyze_personality db' uid') trait)
        \<and> (20 \<le> raw_count db uid keywords
             \<longrightarrow> score_of (analyze_personality db uid) trait = 100))"
proof -
  have "length (recent_messages 50 db uid) \<le> 50"
    by (simp add: recent_messages_def)
  moreover have "\<forall>(trait, score) \<in> set (analyze_personality db uid). 0 \<le> score \<and> score \<le> 100"
    using analyze_personality_range by blast
  moreover have "\<forall>(trait, keywords) \<in> set personality_indicators.
        score_of (analyze_personality db uid) trait
          = min (5 * int (raw_count db uid keywords)) 100
        \<and> raw_count db uid keywords =
            (\<Sum>keyword\<leftarrow>keywords. \<Sum>row\<leftarrow>recent_messages 50 db uid.
                count_sub (lower (message_text row)) keyword)
        \<and> (raw_count db uid keywords \<le> raw_count db' uid' keywords
             \<longrightarrow> score_of (analyze_personality db uid) trait
                   \<le> score_of (analyze_personality db' uid') trait)
        \<and> (20 \<le> raw_count db uid keywords
             \<longrightarrow> score_of (analyze_personality db uid) trait = 100)"
  proof (intro ballI, clarify)
    fix trait kws
    assume mem: "(trait, kws) \<in> set personality_indicators"
    have s: "score_of (analyze_personality d u) trait
               = min (5 * int (raw_count d u kws)) 100" for d u
      using mem by (rule score_of_eq)
    have "raw_count db uid kws =
            (\<Sum>keyword\<leftarrow>kws. \<Sum>row\<leftarrow>recent_messages 50 db uid.
                count_sub (lower (message_text row)) keyword)"
      using mem by (rule raw_count_per_message)
    moreover have "raw_count db uid kws \<le> raw_count db' uid' kws
             \<longrightarrow> score_of (analyze_personality db uid) trait
                   \<le> score_of (analyze_personality db' uid') trait"
      unfolding s by auto
    moreover have "20 \<le> raw_count db uid kws
             \<longrightarrow> score_of (analyze_personality db uid) trait = 100"
      unfolding s by auto
    ultimately show "score_of (analyze_personality db uid) trait
          = min (5 * int (raw_count db uid kws)) 100
        \<and> raw_count db uid kws =
            (\<Sum>keyword\<leftarrow>kws. \<Sum>row\<leftarrow>recent_messages 50 db uid.
                count_sub (lower (message_text row)) keyword)
        \<and> (raw_count db uid kws \<le> raw_count db' uid' kws
             \<longrightarrow> score_of (analyze_personality db uid) trait
                   \<le> score_of (analyze_personality db' uid') trait)
        \<and> (20 \<le> raw_count db uid kws
             \<longrightarrow> score_of (analyze_personality db uid) trait = 100)"
      using s [of db uid] by blast
  qed
  ultimately show ?thesis
    using analyze_personality_eq [of db uid] analyze_personality_keys [of db uid] by blast
qed

lemma party_raw_count_2:
  "raw_count (party_db 2) 7
     [''party'', ''friends'', ''social'', ''outgoing'', ''energy'', ''talk'', ''people''] = 2"
  by (simp add: raw_count_def party_db_def recent_messages_def user_messages_def
      lower_def lower_char_def count_sub.simps eval_nat_numeral)

lemma party_raw_count_20:
  "raw_count (party_db 20) 7
     [''party'', ''friends'', ''social'', ''outgoing'', ''energy'', ''talk'', ''people''] = 20"
  by (simp add: raw_count_def party_db_def recent_messages_def user_messages_def
      lower_def lower_char_def count_sub.simps eval_nat_numeral)

theorem trait_scores_witness:
  "score_of (analyze_personality (party_db 2) 7) ''extraversion'' = 10
   \<and> score_of (analyze_personality (party_db 20) 7) ''extraversion'' = 100
   \<and> score_of (analyze_personality (party_db 2) 7) ''extraversion''
       \<le> score_of (analyze_personality (party_db 20) 7) ''extraversion''"
proof -
  define ks where
    "ks = [''party'', ''friends'', ''social'', ''outgoing'', ''energy'', ''talk'', ''people'']"
  have mem: "(''extraversion'', ks) \<in> set personality_indicators"
    by (simp add: personality_indicators_def ks_def)
  have r2: "raw_count (party_db 2) 7 ks = 2" and r20: "raw_count (party_db 20) 7 ks = 20"
    by (simp_all add: ks_def party_raw_count_2 party_raw_count_20)
  from trait_scores [of "party_db 2" 7 "party_db 20" 7] mem
  have a: "score_of (analyze_personality (party_db 2) 7) ''extraversion''
          = min (5 * int (raw_count (party_db 2) 7 ks)) 100
        \<and> (raw_count (party_db 2) 7 ks \<le> raw_count (party_db 20) 7 ks
             \<longrightarrow> score_of (analyze_personality (party_db 2) 7) ''extraversion''
                   \<le> score_of (analyze_personality (party_db 20) 7) ''extraversion'')"
    by blast
  from trait_scores [of "party_db 20" 7 "party_db 20" 7] mem
  have b: "20 \<le> raw_count (party_db 20) 7 ks
             \<longrightarrow> score_of (analyze_personality (party_db 20) 7) ''extraversion'' = 100"
    by blast
  from a b show ?thesis by (simp add: r2 r20)
qed

section \<open>The personality report\<close>

lemma five_scores:
  "length (xs :: int list) = 5 \<Longrightarrow>
     (\<not> list_ex (\<lambda>score. score \<noteq> 0) xs) = (xs = [0, 0, 0, 0, 0])"
  by (auto simp: list_ex_iff length_Suc_conv eval_nat_numeral)

lemma py_max_key_nonempty: "xs \<noteq> [] \<Longrightarrow> \<exists>k. py_max_key xs = Some k"
  by (cases xs) simp_all

lemma empty_window_scores:
  "recent_messages 50 db uid = [] \<Longrightarrow> map snd (analyze_personality db uid) = [0, 0, 0, 0, 0]"
  by (simp add: analyze_personality_def all_text_def personality_indicators_def count_sub.simps)

text \<open>
  C9. The personality report answers "insufficient data" if and only if all five trait
  scores are zero, which is the case for an empty message window; with any other scores
  it answers with a report, so no report shows five zero scores. The handler leaves the
  database as it was.
\<close>

theorem personality_insufficient_iff:
  "(fst (personality_analysis db uid) = Inr Insufficient_Data
      \<longleftrightarrow> map snd (analyze_personality db uid) = [0, 0, 0, 0, 0])
   \<and> ((\<exists>r. fst (personality_analysis db uid) = Inr (Report r))
      \<longleftrightarrow> map snd (analyze_personality db uid) \<noteq> [0, 0, 0, 0, 0])
   \<and> (recent_messages 50 db uid = []
      \<longrightarrow> map snd (analyze_personality db uid) = [0, 0, 0, 0, 0]
          \<and> fst (personality_analysis db uid) = Inr Insufficient_Data)
   \<and> snd (personality_analysis db uid) = db"
proof -
  have z: "(\<not> list_ex (\<lambda>score. score \<noteq> 0) (map snd (analyze_personality db uid)))
      = (map snd (analyze_personality db uid) = [0, 0, 0, 0, 0])"
    by (rule five_scores) (simp add: analyze_personality_length)
  have "analyze_personality db uid \<noteq> []"
    using analyze_personality_length [of db uid] by auto
  then obtain k where k: "py_max_key (analyze_personality db uid) = Some k"
    using py_max_key_nonempty by blast
  have 1: "fst (personality_analysis db uid) = Inr Insufficient_Data
      \<longleftrightarrow> map snd (analyze_personality db uid) = [0, 0, 0, 0, 0]"
    unfolding z [symmetric] by (simp add: personality_analysis_def Let_def k)
  have 2: "(\<exists>r. fst (personality_analysis db uid) = Inr (Report r))
      \<longleftrightarrow> map snd (analyze_personality db uid) \<noteq> [0, 0, 0, 0, 0]"
    unfolding z [symmetric] by (simp add: personality_analysis_def Let_def k)
  have 3: "snd (personality_analysis db uid) = db"
    by (simp add: personality_analysis_def Let_def k)
  from 1 2 3 empty_window_scores [of db uid] show ?thesis by blast
qed

theorem personality_insufficient_iff_witness:
  "recent_messages 50 empty_db 7 = []
   \<and> fst (personality_analysis empty_db 7) = Inr Insufficient_Data"
proof -
  have e: "recent_messages 50 empty_db 7 = []"
    by (simp add: recent_messages_def user_messages_def empty_db_def)
  with personality_insufficient_iff [of empty_db 7] show ?thesis by blast
qed

section \<open>The mood report\<close>

lemma sorted_key_hd_le: "sorted (map f xs) \<Longrightarrow> x \<in> set xs \<Longrightarrow> f (hd xs) \<le> f x"
  by (cases xs) auto

lemma sorted_key_le_last: "sorted (map f xs) \<Longrightarrow> x \<in> set xs \<Longrightarrow> f x \<le> f (last xs)"
  by (induction xs) auto

lemma recent_messages_sorted: "sorted (map (\<lambda>m. - timestamp m) (recent_messages n db uid))"
  by (simp add: recent_messages_def take_map [symmetric])

lemma recent_messages_length:
  "length (recent_messages n db uid) = min n (length (user_messages db uid))"
  by (simp add: recent_messages_def min.commute)

lemma recent_messages_subset: "set (recent_messages n db uid) \<subseteq> set (user_messages db uid)"
  using set_take_subset [of n "sort_key (\<lambda>m. - timestamp m) (user_messages db uid)"]
  by (simp add: recent_messages_def)

text \<open>A message of the user that the window leaves out is not newer than the window's last row.\<close>

lemma recent_messages_newest:
  assumes "m \<in> set (user_messages db uid)" and "m \<notin> set (recent_messages n db uid)"
    and "recent_messages n db uid \<noteq> []"
  shows "timestamp m \<le> timestamp (last (recent_messages n db uid))"
proof -
  define s where "s = sort_key (\<lambda>m. - timestamp m) (user_messages db uid)"
  have w: "recent_messages n db uid = take n s"
    by (simp add: recent_messages_def s_def)
  have "sorted (map (\<lambda>m. - timestamp m) (take n s @ drop n s))"
    by (simp add: s_def)
  then have *: "\<forall>x\<in>set (take n s). \<forall>y\<in>set (drop n s). - timestamp x \<le> - timestamp y"
    unfolding map_append sorted_append by auto
  have "m \<in> set (take n s @ drop n s)"
    using assms(1) by (simp add: s_def)
  then have "m \<in> set (drop n s)"
    using assms(2) unfolding w set_append by blast
  moreover have "last (take n s) \<in> set (take n s)"
    using assms(3) unfolding w by (rule last_in_set)
  ultimately show ?thesis
    using * unfolding w by auto
qed

lemma hd_eq_last: "xs \<noteq> [] \<Longrightarrow> \<not> 1 < length xs \<Longrightarrow> hd xs = last xs"
  by (cases xs) auto

lemma mood_analysis_empty:
  "recent_messages 20 db uid = [] \<Longrightarrow> mood_analysis blob db uid = (Insufficient_Data, db)"
  by (simp add: mood_analysis_def)

text \<open>
  C2. Let the window be the user's 20 most recent messages, newest first (all of them
  when there are fewer than 20), and let it hold at least one message. Then the mood
  report's trend label is "improving" exactly when the oldest record of the window has a
  strictly lower stored polarity than the newest one, and "declining" otherwise. The
  window's first row is its newest and its last row its oldest, and no message outside
  the window is newer than a message inside.
\<close>

theorem mood_trend_two_point:
  assumes "w = recent_messages 20 db uid" and "w \<noteq> []"
  shows "\<exists>r. fst (mood_analysis blob db uid) = Report r
           \<and> (mood_trend r = ''improving''
                \<longleftrightarrow> sentiment_score (last w) < sentiment_score (hd w))
           \<and> (mood_trend r = ''declining''
                \<longleftrightarrow> \<not> sentiment_score (last w) < sentiment_score (hd w))
           \<and> length w = min 20 (length (user_messages db uid))
           \<and> set w \<subseteq> set (user_messages db uid)
           \<and> (\<forall>m\<in>set w. timestamp (last w) \<le> timestamp m \<and> timestamp m \<le> timestamp (hd w))
           \<and> (\<forall>m\<in>set (user_messages db uid).
                 m \<notin> set w \<longrightarrow> timestamp m \<le> timestamp (last w))"
proof -
  have s: "sorted (map (\<lambda>m. - timestamp m) w)"
    unfolding assms(1) by (rule recent_messages_sorted)
  have bounds: "\<forall>m\<in>set w. timestamp (last w) \<le> timestamp m \<and> timestamp m \<le> timestamp (hd w)"
    using sorted_key_hd_le [OF s] sorted_key_le_last [OF s] by fastforce
  have outside: "\<forall>m\<in>set (user_messages db uid).
      m \<notin> set w \<longrightarrow> timestamp m \<le> timestamp (last w)"
    using recent_messages_newest [of _ db uid 20] assms by blast
  have "\<not> Suc 0 < length w \<Longrightarrow> sentiment_score (hd w) = sentiment_score (last w)"
    using hd_eq_last [OF assms(2)] by simp
  then have one: "Suc 0 < length w \<and> sentiment_score (last w) < sentiment_score (hd w)
      \<longleftrightarrow> sentiment_score (last w) < sentiment_score (hd w)"
    by force
  have trend: "fst (mood_analysis blob db uid) = Report r \<Longrightarrow>
      mood_trend r = (if sentiment_score (last w) < sentiment_score (hd w)
                      then ''improving'' else ''declining'')" for r
    using assms(2) one unfolding assms(1)
    by (auto simp: mood_analysis_def Let_def hd_map last_map)
  have rep: "\<exists>r. fst (mood_analysis blob db uid) = Report r"
    using assms by (simp add: mood_analysis_def Let_def)
  then obtain r where r: "fst (mood_analysis blob db uid) = Report r" ..
  have "mood_trend r = ''improving'' \<longleftrightarrow> sentiment_score (last w) < sentiment_score (hd w)"
    "mood_trend r = ''declining'' \<longleftrightarrow> \<not> sentiment_score (last w) < sentiment_score (hd w)"
    using trend [OF r] by simp_all
  moreover have "length w = min 20 (length (user_messages db uid))"
    unfolding assms(1) by (rule recent_messages_length)
  moreover have "set w \<subseteq> set (user_messages db uid)"
    unfolding assms(1) by (rule recent_messages_subset)
  ultimately show ?thesis using r bounds outside by blast
qed

lemma trend_db_window:
  "recent_messages 20 trend_db 7 =
     [\<lparr>user_id = 7, message_text = ''good day'', timestamp = mk_datetime 1 9 0 0,
       sentiment_score = 0.4, word_count = 2\<rparr>,
      \<lparr>user_id = 7, message_text = ''fine'', timestamp = mk_datetime 0 11 0 0,
       sentiment_score = 0, word_count = 1\<rparr>,
      \<lparr>user_id = 7, message_text = ''bad day'', timestamp = mk_datetime 0 9 0 0,
       sentiment_score = - 0.5, word_count = 2\<rparr>]"
  by (simp add: recent_messages_def user_messages_def trend_db_def mk_datetime_def)

theorem mood_trend_two_point_witness:
  "\<exists>r. fst (mood_analysis (\<lambda>t. (0, 0)) trend_db 7) = Report r \<and> mood_trend r = ''improving''"
proof -
  have ne: "recent_messages 20 trend_db 7 \<noteq> []"
    by (simp add: trend_db_window)
  have lt: "sentiment_score (last (recent_messages 20 trend_db 7))
              < sentiment_score (hd (recent_messages 20 trend_db 7))"
    by (simp add: trend_db_window)
  from mood_trend_two_point [OF refl ne, of "\<lambda>t. (0, 0)"] lt show ?thesis
    by blast
qed

section \<open>The activity periods of the comprehensive report\<close>

text \<open>Away from the hours 12, 18 and 22 the query's periods are the specification's.\<close>

lemma period_of_hour_agrees:
  "h \<noteq> 12 \<Longrightarrow> h \<noteq> 18 \<Longrightarrow> h \<noteq> 22 \<Longrightarrow> period_of_hour h = spec_bucket h"
  by (simp add: period_of_hour_def spec_bucket_def)

text \<open>
  C1 fails on the code at the hours 12, 18 and 22. \<open>BETWEEN\<close> includes its upper bound
  and the first \<open>WHEN\<close> that holds decides, so a message at hour 12 is counted as Morning
  (not Afternoon), at hour 18 as Afternoon (not Evening) and at hour 22 as Evening (not
  Night). A user with messages at 12:00, 12:30, 12:59, 18:00 and 22:00 is reported with
  the counts Morning 3, Afternoon 1, Evening 1, and Morning first.
\<close>

theorem activity_buckets_at_boundaries:
  "period_of_hour 12 = ''Morning'' \<and> spec_bucket 12 = ''Afternoon''
   \<and> period_of_hour 18 = ''Afternoon'' \<and> spec_bucket 18 = ''Evening''
   \<and> period_of_hour 22 = ''Evening'' \<and> spec_bucket 22 = ''Night''
   \<and> map time_period (user_messages boundary_db 7)
       = [''Morning'', ''Morning'', ''Morning'', ''Afternoon'', ''Evening'']
   \<and> set (time_patterns boundary_db 7)
       = {(''Morning'', 3), (''Evening'', 1), (''Afternoon'', 1)}
   \<and> hd (time_patterns boundary_db 7) = (''Morning'', 3)"
  by (simp add: period_of_hour_def spec_bucket_def time_patterns_def time_period_def
      user_messages_def boundary_db_def strftime_H_def mk_datetime_def us_per_day_def
      us_per_hour_def Let_def numeral_3_eq_3)

text \<open>The whole reply for that user; the two periods with one message each are tied.\<close>

lemma boundary_report:
  "\<exists>r. fst (generate_report boundary_db (mk_datetime 1 0 0 0) 7) = Inr (Report r)
      \<and> most_active r = Some ''Morning''
      \<and> activity_patterns r = [(''Morning'', 3, 60), (''Evening'', 1, 20), (''Afternoon'', 1, 20)]"
proof -
  have p: "time_patterns boundary_db 7 = [(''Morning'', 3), (''Evening'', 1), (''Afternoon'', 1)]"
    by (simp add: period_of_hour_def time_patterns_def time_period_def
      user_messages_def boundary_db_def strftime_H_def mk_datetime_def us_per_day_def
      us_per_hour_def Let_def)
  have n: "length (user_messages boundary_db 7) = 5"
    by (simp add: user_messages_def boundary_db_def)
  have ne: "user_messages boundary_db 7 \<noteq> []"
    using n by auto
  show ?thesis
    by (simp add: generate_report_def Let_def sql_avg_def p n ne)
qed

text \<open>Scenario 4: one message in each period; the four rows are tied.\<close>

lemma four_way_tie:
  "time_patterns four_db 7
     = [(''Night'', 1), (''Morning'', 1), (''Evening'', 1), (''Afternoon'', 1)]"
  by (simp add: period_of_hour_def time_patterns_def time_period_def
      user_messages_def four_db_def strftime_H_def mk_datetime_def us_per_day_def
      us_per_hour_def Let_def)

section \<open>What the reports depend on\<close>

text \<open>
  C8 as stated fails for the stats report: it reads the clock, so the same messages give
  days-active 1 at 01:00 on day 1 and days-active 5 at 01:00 on day 5.
\<close>

theorem stats_depend_on_clock:
  "fst (user_stats example_db (mk_datetime 1 1 0 0) 7)
     \<noteq> fst (user_stats example_db (mk_datetime 5 1 0 0) 7)"
  by (simp add: user_stats_def example_db_def user_messages_def Let_def sql_avg_def sql_min_def
      sql_max_def days_active_of_def timedelta_days_def mk_datetime_def us_per_day_def)

lemma recent_messages_cong:
  "user_messages db uid = user_messages db' uid \<Longrightarrow>
     recent_messages n db uid = recent_messages n db' uid"
  by (simp add: recent_messages_def)

lemma mood_analysis_window:
  "recent_messages 20 db uid = recent_messages 20 db' uid \<Longrightarrow>
     fst (mood_analysis blob db uid) = fst (mood_analysis blob db' uid)"
  by (simp add: mood_analysis_def Let_def)

lemma analyze_personality_window:
  "recent_messages 50 db uid = recent_messages 50 db' uid \<Longrightarrow>
     analyze_personality db uid = analyze_personality db' uid"
  by (simp add: analyze_personality_def all_text_def)

lemma personality_analysis_window:
  "recent_messages 50 db uid = recent_messages 50 db' uid \<Longrightarrow>
     fst (personality_analysis db uid) = fst (personality_analysis db' uid)"
  by (simp add: personality_analysis_def Let_def analyze_personality_window [of db uid db']
      split: option.splits)

lemma generate_report_rows:
  assumes "user_messages db uid = user_messages db' uid"
  shows "fst (generate_report db now uid) = fst (generate_report db' now uid)"
proof -
  have "analyze_personality db uid = analyze_personality db' uid"
    by (rule analyze_personality_window) (rule recent_messages_cong [OF assms])
  moreover have "time_patterns db uid = time_patterns db' uid"
    by (simp add: time_patterns_def assms)
  moreover have "daily_data db t uid = daily_data db' t uid" for t
    by (simp add: daily_data_def assms)
  ultimately show ?thesis
    by (simp add: generate_report_def Let_def assms split: option.splits)
qed

lemma user_stats_rows:
  "user_messages db uid = user_messages db' uid \<Longrightarrow>
     fst (user_stats db now uid) = fst (user_stats db' now uid)"
  by (simp add: user_stats_def Let_def split: option.splits)

lemma handlers_read_only:
  "snd (mood_analysis blob db uid) = db" "snd (personality_analysis db uid) = db"
  "snd (generate_report db now uid) = db" "snd (user_stats db now uid) = db"
  by (simp_all add: mood_analysis_def personality_analysis_def generate_report_def
      user_stats_def Let_def split: option.splits)

text \<open>
  C8, amended. The mood report is determined by the user's window of 20 most recent
  messages (and the sentiment primitive), the personality report by the user's window of
  50 most recent messages; the comprehensive and the stats report are determined by the
  user's stored messages together with the clock reading of the request. Nothing else in
  the database (other users' messages, the users table) has an influence, and no report
  handler changes the database.
\<close>

theorem reports_determined_by_rows_and_clock:
  "(recent_messages 20 db uid = recent_messages 20 db' uid
      \<longrightarrow> fst (mood_analysis blob db uid) = fst (mood_analysis blob db' uid))
   \<and> (recent_messages 50 db uid = recent_messages 50 db' uid
      \<longrightarrow> fst (personality_analysis db uid) = fst (personality_analysis db' uid))
   \<and> (user_messages db uid = user_messages db' uid
      \<longrightarrow> fst (generate_report db now uid) = fst (generate_report db' now uid)
          \<and> fst (user_stats db now uid) = fst (user_stats db' now uid))
   \<and> snd (mood_analysis blob db uid) = db
   \<and> snd (personality_analysis db uid) = db
   \<and> snd (generate_report db now uid) = db
   \<and> snd (user_stats db now uid) = db"
proof (intro conjI impI)
  show "snd (mood_analysis blob db uid) = db" "snd (personality_analysis db uid) = db"
    "snd (generate_report db now uid) = db" "snd (user_stats db now uid) = db"
    by (rule handlers_read_only)+
qed (erule mood_analysis_window personality_analysis_window generate_report_rows
      user_stats_rows)+

theorem reports_determined_by_rows_and_clock_witness:
  "fst (mood_analysis (\<lambda>t. (0, 0)) example_db 7)
     = fst (mood_analysis (\<lambda>t. (0, 0)) (with_other_user example_db) 7)
   \<and> fst (personality_analysis example_db 7)
     = fst (personality_analysis (with_other_user example_db) 7)
   \<and> fst (generate_report example_db (mk_datetime 1 1 0 0) 7)
     = fst (generate_report (with_other_user example_db) (mk_datetime 1 1 0 0) 7)
   \<and> fst (user_stats example_db (mk_datetime 1 1 0 0) 7)
     = fst (user_stats (with_other_user example_db) (mk_datetime 1 1 0 0) 7)"
proof -
  have u: "user_messages example_db 7 = user_messages (with_other_user example_db) 7"
    by (simp add: user_messages_def with_other_user_def example_db_def)
  have r: "recent_messages n example_db 7 = recent_messages n (with_other_user example_db) 7" for n
    by (simp add: recent_messages_def u)
  from reports_determined_by_rows_and_clock
         [of example_db 7 "with_other_user example_db" "\<lambda>t. (0, 0)" "mk_datetime 1 1 0 0"]
  show ?thesis using u r by blast
qed

end
